theory Spec2Isabelle
  imports Complex_Main "HOL-Library.Multiset"
begin

section \<open>JavaScript values\<close>

text \<open>
  The values that \<^verbatim>\<open>response.json()\<close> hands to the component. A number read from
  JSON is a finite double, hence a real (JSON has no NaN literal); what arithmetic makes
  of such numbers is the subject of the section on the distance calculator. A property
  that is absent reads as \<^verbatim>\<open>undefined\<close>, which is \<open>None\<close> of \<open>jsval option\<close>.
\<close>

datatype jsval =
    JNull
  | JBool bool
  | JNum real
  | JStr string
  | JArr "jsval list"
  | JObj "(string \<times> jsval) list"

text \<open>ToBoolean: \<^verbatim>\<open>null\<close>, \<^verbatim>\<open>false\<close>, \<^verbatim>\<open>0\<close> and \<^verbatim>\<open>""\<close> are falsy, every array
  and object is truthy.\<close>

fun truthy :: "jsval \<Rightarrow> bool" where
  "truthy JNull = False"
| "truthy (JBool b) = b"
| "truthy (JNum r) = (r \<noteq> 0)"
| "truthy (JStr s) = (s \<noteq> [])"
| "truthy (JArr _) = True"
| "truthy (JObj _) = True"

definition truthyProp :: "jsval option \<Rightarrow> bool" where
  "truthyProp v = (case v of None \<Rightarrow> False | Some u \<Rightarrow> truthy u)"

text \<open>A coordinate read out of a geometry: a number, or \<open>None\<close> for \<^verbatim>\<open>null\<close> and for
  an absent property. A number is truthy unless it is zero.\<close>

definition truthyNum :: "real option \<Rightarrow> bool" where
  "truthyNum v = (case v of None \<Rightarrow> False | Some r \<Rightarrow> r \<noteq> 0)"

text \<open>Property lookup on an object, given as its list of keys and values (each key once,
  as \<^verbatim>\<open>JSON.parse\<close> delivers it).\<close>

definition getProp :: "(string \<times> jsval) list \<Rightarrow> string \<Rightarrow> jsval option" where
  "getProp ob k = map_of ob k"

section \<open>Risk classifier\<close>

record riskLevel =
  level :: string
  color :: string

definition getStatusText :: "jsval option \<Rightarrow> string" where
  "getStatusText status =
     (if status = Some (JStr ''OC'') then ''Out-of-Control''
      else if status = Some (JStr ''BH'') then ''Being Held''
      else if status = Some (JStr ''UC'') then ''Under Control''
      else if status = Some (JStr ''O'') then ''Out''
      else ''Unknown'')"

text \<open>
  \<^verbatim>\<open>getRiskLevel\<close>. The block for the status \<^verbatim>\<open>"OC"\<close> returns from inside
  (\<open>Some\<close>) or falls through (\<open>None\<close>) to the test that follows it.
\<close>

definition getRiskLevel :: "real \<Rightarrow> jsval option \<Rightarrow> riskLevel" where
  "getRiskLevel d status =
     (case (if status = Some (JStr ''OC'') then
              (if d < 10 then
                 Some \<lparr>level = ''EXTREME RISK'', color = ''text-red-900 bg-red-200 border-red-400''\<rparr>
               else if d < 25 then
                 Some \<lparr>level = ''HIGH RISK'', color = ''text-red-800 bg-red-100 border-red-300''\<rparr>
               else if d < 50 then
                 Some \<lparr>level = ''MODERATE RISK'',
                       color = ''text-orange-800 bg-orange-100 border-orange-300''\<rparr>
               else None)
            else None) of
        Some r \<Rightarrow> r
      | None \<Rightarrow>
          if (status = Some (JStr ''BH'') \<or> status = Some (JStr ''OC'')) \<and> d < 100 then
            \<lparr>level = ''LOW RISK'', color = ''text-yellow-800 bg-yellow-100 border-yellow-300''\<rparr>
          else
            \<lparr>level = ''MINIMAL RISK'', color = ''text-green-800 bg-green-100 border-green-300''\<rparr>)"

section \<open>Distance calculator\<close>

text \<open>
  The result of double arithmetic: a finite number or \<^verbatim>\<open>NaN\<close>. (On coordinates
  within their ranges no operation of the component overflows.)
\<close>

datatype jsnum = NaN | Num real


definition jsLessEq :: "jsnum \<Rightarrow> jsnum \<Rightarrow> bool" where
  "jsLessEq v w =
     (case v of NaN \<Rightarrow> False | Num p \<Rightarrow> (case w of NaN \<Rightarrow> False | Num q \<Rightarrow> p \<le> q))"

text \<open>
  Subtraction. The difference of two finite doubles is rounded, but keeps its sign, and
  the component reads nothing but the sign of a difference; so the exact difference
  stands for it.
\<close>

definition jsSub :: "jsnum \<Rightarrow> jsnum \<Rightarrow> jsnum" where
  "jsSub v w =
     (case v of NaN \<Rightarrow> NaN | Num p \<Rightarrow> (case w of NaN \<Rightarrow> NaN | Num q \<Rightarrow> Num (p - q)))"

text \<open>
  The arithmetic of the JavaScript engine, as far as \<^verbatim>\<open>calculateDistance\<close> uses it:
  \<open>rnd\<close> rounds the exact result of \<^verbatim>\<open>+\<close>, \<^verbatim>\<open>-\<close>, \<^verbatim>\<open>*\<close> or \<^verbatim>\<open>/\<close> to a double,
  \<open>Math_PI\<close> is the constant, and the four functions give the doubles that the library
  returns on finite arguments (\<open>Math_sqrt\<close> on arguments that are not negative).
\<close>

record fpu =
  rnd :: "real \<Rightarrow> real"
  Math_PI :: real
  Math_sin :: "real \<Rightarrow> real"
  Math_cos :: "real \<Rightarrow> real"
  Math_sqrt :: "real \<Rightarrow> real"
  Math_atan2 :: "real \<Rightarrow> real \<Rightarrow> real"

text \<open>\<^verbatim>\<open>Math.sqrt\<close>: \<^verbatim>\<open>NaN\<close> on a negative number.\<close>

definition jsSqrt :: "fpu \<Rightarrow> real \<Rightarrow> jsnum" where
  "jsSqrt f v = (if v < 0 then NaN else Num (Math_sqrt f v))"

text \<open>The constant \<^verbatim>\<open>a\<close> of \<^verbatim>\<open>calculateDistance\<close>, every operation rounded.\<close>

definition haversineTerm :: "fpu \<Rightarrow> real \<Rightarrow> real \<Rightarrow> real \<Rightarrow> real \<Rightarrow> real" where
  "haversineTerm f lat1 lon1 lat2 lon2 =
     (let dLat = rnd f (rnd f (rnd f (lat2 - lat1) * Math_PI f) / 180);
          dLon = rnd f (rnd f (rnd f (lon2 - lon1) * Math_PI f) / 180);
          sinLat = Math_sin f (rnd f (dLat / 2));
          sinLon = Math_sin f (rnd f (dLon / 2));
          cos1 = Math_cos f (rnd f (rnd f (lat1 * Math_PI f) / 180));
          cos2 = Math_cos f (rnd f (rnd f (lat2 * Math_PI f) / 180))
      in rnd f (rnd f (sinLat * sinLat) +
                rnd f (rnd f (rnd f (cos1 * cos2) * sinLon) * sinLon)))"

text \<open>
  \<^verbatim>\<open>calculateDistance\<close>. When one of the two square roots is \<^verbatim>\<open>NaN\<close>, so are
  \<^verbatim>\<open>Math.atan2\<close> of them, \<^verbatim>\<open>c\<close> and the result.
\<close>

definition calculateDistance :: "fpu \<Rightarrow> real \<Rightarrow> real \<Rightarrow> real \<Rightarrow> real \<Rightarrow> jsnum" where
  "calculateDistance f lat1 lon1 lat2 lon2 =
     (let R = 6371;
          a = haversineTerm f lat1 lon1 lat2 lon2
      in (case (jsSqrt f a, jsSqrt f (rnd f (1 - a))) of
            (Num s, Num t) \<Rightarrow> Num (rnd f (R * rnd f (2 * Math_atan2 f s t)))
          | _ \<Rightarrow> NaN))"

text \<open>
  Arithmetic without rounding, for comparison: the exact operations, \<open>\<pi>\<close>, and the
  mathematical functions, \<^verbatim>\<open>Math.atan2(y, x)\<close> being the angle of the point \<open>(x, y)\<close> in
  \<open>(-\<pi>, \<pi>]\<close>.
\<close>

definition atan2 :: "real \<Rightarrow> real \<Rightarrow> real" where
  "atan2 y x =
     (if 0 < x then arctan (y / x)
      else if x < 0 \<and> 0 \<le> y then arctan (y / x) + pi
      else if x < 0 then arctan (y / x) - pi
      else if 0 < y then pi / 2
      else if y < 0 then - (pi / 2)
      else 0)"

definition exactArithmetic :: fpu where
  "exactArithmetic =
     \<lparr>rnd = (\<lambda>v. v), Math_PI = pi, Math_sin = sin, Math_cos = cos, Math_sqrt = sqrt,
      Math_atan2 = atan2\<rparr>"

section \<open>Network replies and errors\<close>

text \<open>
  What \<^verbatim>\<open>await fetch(...)\<close> followed by \<^verbatim>\<open>await response.json()\<close> can deliver:
  the fetch is rejected (\<open>NetworkFailure\<close> carries the message of the error), or a
  response arrives with its HTTP status and the outcome of parsing its body
  (\<open>Inl\<close> the message of the parse error, \<open>Inr\<close> the parsed body).
\<close>

datatype 'b reply =
    NetworkFailure string
  | HttpResponse nat "string + 'b"

definition responseOk :: "nat \<Rightarrow> bool" where
  "responseOk status = (200 \<le> status \<and> status \<le> 299)"

datatype jsError = Error string

datatype request = GeocodeRequest string | WildfireRequest | HotspotRequest

text \<open>The decimal digits of a status code inside a template literal.\<close>

fun showNat :: "nat \<Rightarrow> string" where
  "showNat n =
     (if n < 10 then [char_of (48 + n)]
      else showNat (n div 10) @ [char_of (48 + n mod 10)])"

section \<open>Data model\<close>

record point =
  geomX :: "real option"
  geomY :: "real option"

record feature =
  attributes :: "(string \<times> jsval) list"
  geometry :: "point option"

text \<open>The body of the wildfire feature service: \<^verbatim>\<open>{features: [...], error?}\<close>.\<close>

record wildfireResponse =
  errorField :: "jsval option"
  features :: "feature list option"

text \<open>
  A feature of the hotspot service. Its attributes \<^verbatim>\<open>latitude\<close> and \<^verbatim>\<open>longitude\<close>,
  numbers or \<^verbatim>\<open>null\<close>, are fields of their own; \<open>otherAttributes\<close> are the rest.
\<close>

record hotspotFeature =
  otherAttributes :: "(string \<times> jsval) list"
  latitude :: "real option"
  longitude :: "real option"

record hotspotResponse =
  hotspotError :: "jsval option"
  hotspotFeatures :: "hotspotFeature list option"

text \<open>
  A fire as the component holds it: the attributes of the feature, spread into the object,
  and the two coordinates read from the geometry, which override attributes of the same name.
\<close>

record fire =
  attrs :: "(string \<times> jsval) list"
  LATITUDE :: "real option"
  LONGITUDE :: "real option"

record rankedFire = fire +
  distance :: jsnum

record location =
  locX :: real
  locY :: real

record candidate =
  location :: location
  candScore :: real
  candAddress :: string

record geocodeResponse =
  candidates :: "candidate list option"

record geocodeResult =
  lat :: real
  lng :: real
  score :: real
  matchedAddress :: string

record cacheEntry =
  data :: "fire list"
  timestamp :: int

record sessionStorage =
  wildfireData :: "cacheEntry option"
  mapHotspots :: "rankedFire list option"

text \<open>
  The state of the component (\<^verbatim>\<open>useState\<close>), the session storage of the browser and
  the requests sent so far.
\<close>

record state =
  address :: string
  loading :: bool
  results :: "rankedFire list"
  error :: string
  lastUpdated :: "int option"
  userLocation :: "geocodeResult option"
  storage :: sessionStorage
  requests :: "request list"

text \<open>
  The surroundings of one search: the geocoding service (a reply for each query), the
  replies of the two feature services, the two readings of \<^verbatim>\<open>Date.now()\<close>, the one in
  \<^verbatim>\<open>getCachedData\<close> and the later one in \<^verbatim>\<open>setCachedData\<close>, and the arithmetic of
  the engine.
\<close>

record env =
  geocoder :: "string \<Rightarrow> geocodeResponse reply"
  wildfireService :: "wildfireResponse reply"
  hotspotService :: "hotspotResponse reply"
  clockRead :: int
  clockWrite :: int
  arith :: fpu

section \<open>Geocoder\<close>

definition geocodeQuery :: "string \<Rightarrow> string" where
  "geocodeQuery addr = addr @ '', Newfoundland and Labrador, Canada''"

definition addressNotFound :: string where
  "addressNotFound =
     ''Address not found. Please try a more specific address in Newfoundland & Labrador.''"

text \<open>The body of the \<^verbatim>\<open>try\<close> block of \<^verbatim>\<open>geocodeAddress\<close>; \<open>Inl\<close> is a thrown error.\<close>

definition geocodeAddress_try :: "geocodeResponse reply \<Rightarrow> jsError + geocodeResult" where
  "geocodeAddress_try rep =
     (case rep of
        NetworkFailure m \<Rightarrow> Inl (Error m)
      | HttpResponse status body \<Rightarrow>
          if \<not> responseOk status then Inl (Error (''HTTP error! status: '' @ showNat status))
          else (case body of
                  Inl m \<Rightarrow> Inl (Error m)
                | Inr dat \<Rightarrow>
                    (case candidates dat of
                       Some (c # cs) \<Rightarrow>
                         Inr \<lparr>lat = locY (location c), lng = locX (location c),
                              score = candScore c, matchedAddress = candAddress c\<rparr>
                     | _ \<Rightarrow> Inl (Error addressNotFound))))"

text \<open>The \<^verbatim>\<open>catch\<close> block rethrows every error of the body under one prefix.\<close>

definition geocodeAddress ::
  "string \<Rightarrow> env \<Rightarrow> state \<Rightarrow> (jsError + geocodeResult) \<times> state" where
  "geocodeAddress addr e st =
     (let q = geocodeQuery addr;
          st' = st\<lparr>requests := requests st @ [GeocodeRequest q]\<rparr>
      in (case geocodeAddress_try (geocoder e q) of
            Inl (Error m) \<Rightarrow> (Inl (Error (''Geocoding failed: '' @ m)), st')
          | Inr r \<Rightarrow> (Inr r, st')))"

section \<open>Wildfire data fetcher\<close>

definition toFire :: "feature \<Rightarrow> fire" where
  "toFire ft =
     \<lparr>attrs = attributes ft,
      LATITUDE = (case geometry ft of Some g \<Rightarrow> geomY g | None \<Rightarrow> None),
      LONGITUDE = (case geometry ft of Some g \<Rightarrow> geomX g | None \<Rightarrow> None)\<rparr>"

definition STATUS :: "'a fire_scheme \<Rightarrow> jsval option" where
  "STATUS f = getProp (attrs f) ''STATUS''"

definition activeFilter :: "fire \<Rightarrow> bool" where
  "activeFilter f =
     (truthyNum (LATITUDE f) \<and> truthyNum (LONGITUDE f) \<and> truthyProp (STATUS f) \<and>
      STATUS f \<in> set [Some (JStr ''OC''), Some (JStr ''BH''), Some (JStr ''UC'')])"

text \<open>
  The body of the \<^verbatim>\<open>try\<close> block of \<^verbatim>\<open>getWildfireData\<close>. \<open>None\<close> is a thrown error:
  the \<^verbatim>\<open>catch\<close> block only logs it, so its message is not kept.
\<close>

definition getWildfireData_try :: "wildfireResponse reply \<Rightarrow> fire list option" where
  "getWildfireData_try rep =
     (case rep of
        NetworkFailure m \<Rightarrow> None
      | HttpResponse status body \<Rightarrow>
          if \<not> responseOk status then None
          else (case body of
                  Inl m \<Rightarrow> None
                | Inr dat \<Rightarrow>
                    if truthyProp (errorField dat) then None
                    else (case features dat of
                            Some (ft # fts) \<Rightarrow> Some (filter activeFilter (map toFire (ft # fts)))
                          | _ \<Rightarrow> Some [])))"

definition mkFire ::
  "string \<Rightarrow> string \<Rightarrow> string \<Rightarrow> real \<Rightarrow> real \<Rightarrow> real \<Rightarrow> real \<Rightarrow> real \<Rightarrow> string \<Rightarrow> string \<Rightarrow> string \<Rightarrow> fire" where
  "mkFire fireid name status la lo areaest firedate provfirenum region district cause =
     \<lparr>attrs = [(''FIREID'', JStr fireid), (''NAME'', JStr name), (''STATUS'', JStr status),
               (''AREAEST'', JNum areaest), (''FIREDATE'', JNum firedate),
               (''PROVFIRENUM'', JNum provfirenum), (''REGION'', JStr region),
               (''DISTRICT'', JStr district), (''CAUSE'', JStr cause)],
      LATITUDE = Some la, LONGITUDE = Some lo\<rparr>"

definition kingstonFire :: fire where
  "kingstonFire = mkFire ''NL-2025-Kingston'' ''Kingston Peninsula Fire'' ''OC''
     47.75 (- 53.18) 5000 1723334400000 301 ''ET'' ''10'' ''Lightning''"

definition ochreFire :: fire where
  "ochreFire = mkFire ''NL-2025-Ochre'' ''Ochre Pit Cove Area Fire'' ''OC''
     47.72 (- 53.25) 1200 1723420800000 302 ''ET'' ''10'' ''Human''"

definition trinityFire :: fire where
  "trinityFire = mkFire ''NL-2025-Trinity'' ''Trinity Bay Fire'' ''BH''
     47.65 (- 53.38) 800 1723248000000 303 ''ET'' ''11'' ''Lightning''"

definition labradorFire :: fire where
  "labradorFire = mkFire ''NL-2025-Labrador'' ''Labrador City Area Fire'' ''UC''
     52.94 (- 66.91) 2500 1723161600000 304 ''LB'' ''20'' ''Lightning''"

text \<open>The fallback list of \<^verbatim>\<open>src/unnamed/part_000\<close> and of the first version of the
  component in \<^verbatim>\<open>WildfireProximityApp.jsx\<close> (lines 1 to 551).\<close>

definition fallbackFires :: "fire list" where
  "fallbackFires = [kingstonFire, ochreFire, trinityFire, labradorFire]"

text \<open>The fallback list of the version with thermal hotspots (the second version in
  \<^verbatim>\<open>WildfireProximityApp.jsx\<close>, lines 552 to 1506).\<close>

definition fallbackFires_hotspots :: "fire list" where
  "fallbackFires_hotspots = [kingstonFire, ochreFire, trinityFire]"

definition degradedMessage :: string where
  "degradedMessage = ''Could not fetch live data. Showing recent examples.''"

definition getWildfireData :: "env \<Rightarrow> state \<Rightarrow> fire list \<times> state" where
  "getWildfireData e st =
     (let st' = st\<lparr>requests := requests st @ [WildfireRequest]\<rparr>
      in (case getWildfireData_try (wildfireService e) of
            Some fires \<Rightarrow> (fires, st')
          | None \<Rightarrow> (fallbackFires, st'\<lparr>error := degradedMessage\<rparr>)))"

text \<open>\<^verbatim>\<open>getWildfireData\<close> of the version with thermal hotspots: the same body, another
  fallback list.\<close>

definition getWildfireData_hotspots :: "env \<Rightarrow> state \<Rightarrow> fire list \<times> state" where
  "getWildfireData_hotspots e st =
     (let st' = st\<lparr>requests := requests st @ [WildfireRequest]\<rparr>
      in (case getWildfireData_try (wildfireService e) of
            Some fires \<Rightarrow> (fires, st')
          | None \<Rightarrow> (fallbackFires_hotspots, st'\<lparr>error := degradedMessage\<rparr>)))"

text \<open>
  \<^verbatim>\<open>getHotspotData\<close> (only in the version with thermal hotspots). A hotspot takes its
  coordinates from the attributes \<^verbatim>\<open>latitude\<close> and \<^verbatim>\<open>longitude\<close>; any failure gives
  the empty list. The display properties the source adds to a hotspot (\<^verbatim>\<open>FIREID\<close>,
  \<^verbatim>\<open>NAME\<close>, \<^verbatim>\<open>STATUS\<close>, \<^verbatim>\<open>isHotspot\<close>) are not modelled.
\<close>

definition toHotspot :: "hotspotFeature \<Rightarrow> fire" where
  "toHotspot ft =
     \<lparr>attrs = otherAttributes ft, LATITUDE = latitude ft, LONGITUDE = longitude ft\<rparr>"

definition getHotspotData :: "env \<Rightarrow> state \<Rightarrow> fire list \<times> state" where
  "getHotspotData e st =
     (let st' = st\<lparr>requests := requests st @ [HotspotRequest]\<rparr>
      in (case hotspotService e of
            NetworkFailure m \<Rightarrow> ([], st')
          | HttpResponse status body \<Rightarrow>
              if \<not> responseOk status then ([], st')
              else (case body of
                      Inl m \<Rightarrow> ([], st')
                    | Inr dat \<Rightarrow>
                        if truthyProp (hotspotError dat) then ([], st')
                        else (case hotspotFeatures dat of
                                None \<Rightarrow> ([], st')
                              | Some fts \<Rightarrow>
                                  (filter (\<lambda>h. truthyNum (LATITUDE h) \<and> truthyNum (LONGITUDE h))
                                     (map toHotspot fts), st')))))"

section \<open>Result cache\<close>

definition maxAge :: int where
  "maxAge = 10 * 60 * 1000"

text \<open>
  \<^verbatim>\<open>getCachedData\<close>. With nothing stored the source parses \<^verbatim>\<open>"{}"\<close>: the timestamp
  then counts as \<open>0\<close> and \<^verbatim>\<open>cached.data\<close> is undefined, hence falsy; a stored list is an
  array and truthy. The storage is only read.
\<close>

definition getCachedData :: "env \<Rightarrow> state \<Rightarrow> fire list option \<times> state" where
  "getCachedData e st =
     (let cached = wildfireData (storage st);
          cacheAge = clockRead e -
            (case cached of
               Some c \<Rightarrow> (if timestamp c \<noteq> 0 then timestamp c else 0)
             | None \<Rightarrow> 0)
      in (case cached of
            Some c \<Rightarrow>
              if cacheAge < maxAge then (Some (data c), st\<lparr>lastUpdated := Some (timestamp c)\<rparr>)
              else (None, st)
          | None \<Rightarrow> (None, st)))"

definition setCachedData :: "env \<Rightarrow> fire list \<Rightarrow> state \<Rightarrow> state" where
  "setCachedData e ws st =
     (let ts = clockWrite e;
          cacheData = \<lparr>data = ws, timestamp = ts\<rparr>
      in st\<lparr>storage := (storage st)\<lparr>wildfireData := Some cacheData\<rparr>,
            lastUpdated := Some ts\<rparr>)"

text \<open>The interval timer of \<^verbatim>\<open>useEffect\<close>: every ten minutes it removes the entry
  (in the version with thermal hotspots, the stored hotspots too).\<close>

definition clearCache :: "state \<Rightarrow> state" where
  "clearCache st = st\<lparr>storage := (storage st)\<lparr>wildfireData := None\<rparr>\<rparr>"

definition clearCache_hotspots :: "state \<Rightarrow> state" where
  "clearCache_hotspots st =
     st\<lparr>storage := (storage st)\<lparr>wildfireData := None, mapHotspots := None\<rparr>\<rparr>"

section \<open>Search orchestrator\<close>

text \<open>
  \<^verbatim>\<open>String.prototype.trim\<close> on a string of code units below 256: it strips tab, line
  feed, vertical tab, form feed, carriage return, space and no-break space at both ends.
\<close>

definition isWhiteSpace :: "char \<Rightarrow> bool" where
  "isWhiteSpace c = ((of_char c :: nat) \<in> set [9, 10, 11, 12, 13, 32, 160])"

definition trim :: "string \<Rightarrow> string" where
  "trim s = rev (dropWhile isWhiteSpace (rev (dropWhile isWhiteSpace s)))"

text \<open>ToNumber of a coordinate: \<^verbatim>\<open>null\<close> counts as \<open>0\<close> in arithmetic.\<close>

definition toNumber :: "real option \<Rightarrow> real" where
  "toNumber v = (case v of None \<Rightarrow> 0 | Some r \<Rightarrow> r)"

definition withDistance :: "fpu \<Rightarrow> geocodeResult \<Rightarrow> fire \<Rightarrow> rankedFire" where
  "withDistance f loc fr =
     \<lparr>attrs = attrs fr, LATITUDE = LATITUDE fr, LONGITUDE = LONGITUDE fr,
      distance = calculateDistance f (lat loc) (lng loc)
                   (toNumber (LATITUDE fr)) (toNumber (LONGITUDE fr))\<rparr>"

text \<open>
  \<^verbatim>\<open>Array.prototype.sort\<close> with a comparison function, as ECMAScript fixes it: a stable
  sort, where \<open>a\<close> stays before \<open>b\<close> unless the comparison is positive, and where a
  comparison that yields \<^verbatim>\<open>NaN\<close> counts as \<open>0\<close>. It is written here as an insertion
  sort.
\<close>

definition sortCompare :: "('a \<Rightarrow> 'a \<Rightarrow> jsnum) \<Rightarrow> 'a \<Rightarrow> 'a \<Rightarrow> real" where
  "sortCompare cmp a b = (case cmp a b of NaN \<Rightarrow> 0 | Num v \<Rightarrow> v)"

fun insertBy :: "('a \<Rightarrow> 'a \<Rightarrow> jsnum) \<Rightarrow> 'a \<Rightarrow> 'a list \<Rightarrow> 'a list" where
  "insertBy cmp a [] = [a]"
| "insertBy cmp a (b # bs) =
     (if sortCompare cmp a b \<le> 0 then a # b # bs else b # insertBy cmp a bs)"

definition arraySort :: "('a \<Rightarrow> 'a \<Rightarrow> jsnum) \<Rightarrow> 'a list \<Rightarrow> 'a list" where
  "arraySort cmp xs = foldr (insertBy cmp) xs []"

text \<open>\<^verbatim>\<open>.sort((a, b) => a.distance - b.distance)\<close>.\<close>

definition sortByDistance :: "rankedFire list \<Rightarrow> rankedFire list" where
  "sortByDistance rs = arraySort (\<lambda>a b. jsSub (distance a) (distance b)) rs"

definition rankFires :: "fpu \<Rightarrow> geocodeResult \<Rightarrow> fire list \<Rightarrow> rankedFire list" where
  "rankFires f loc wildfires = sortByDistance (map (withDistance f loc) wildfires)"

definition invalidInputMessage :: string where
  "invalidInputMessage = ''Please enter an address''"

definition areaClearMessage :: string where
  "areaClearMessage = ''No active wildfires found in the database. Your area is clear.''"

text \<open>
  \<^verbatim>\<open>searchWildfires\<close> of \<^verbatim>\<open>src/unnamed/part_000\<close> (the first version in
  \<^verbatim>\<open>WildfireProximityApp.jsx\<close> is the same without \<^verbatim>\<open>setUserLocation\<close>). The test
  \<^verbatim>\<open>if (!error)\<close> reads the \<^verbatim>\<open>error\<close> of the render that created the handler, which
  is the state the search starts from.
\<close>

definition searchWildfires :: "env \<Rightarrow> state \<Rightarrow> state" where
  "searchWildfires e st =
     (if trim (address st) = [] then st\<lparr>error := invalidInputMessage\<rparr>
      else
        let st1 = st\<lparr>loading := True, error := [], results := []\<rparr> in
        (case geocodeAddress (address st) e st1 of
           (Inl (Error m), st2) \<Rightarrow> st2\<lparr>error := m, loading := False\<rparr>
         | (Inr loc, st2) \<Rightarrow>
             let st3 = st2\<lparr>userLocation := Some loc\<rparr>;
                 (wildfires, st4) =
                   (case getCachedData e st3 of
                      (Some ws, s) \<Rightarrow> (ws, s)
                    | (None, s) \<Rightarrow>
                        (case getWildfireData e s of (ws, s') \<Rightarrow> (ws, setCachedData e ws s')))
             in if wildfires = [] then
                  (let st5 = st4\<lparr>results := []\<rparr>;
                       st6 = (if error st = [] then st5\<lparr>error := areaClearMessage\<rparr> else st5)
                   in st6\<lparr>loading := False\<rparr>)
                else st4\<lparr>results := rankFires (arith e) loc wildfires, loading := False\<rparr>))"

text \<open>\<^verbatim>\<open>searchWildfires\<close> of the version with thermal hotspots. \<open>mapHotspots\<close> holds
  the list as it is handed to \<^verbatim>\<open>JSON.stringify\<close>.\<close>

definition storeHotspots :: "fpu \<Rightarrow> geocodeResult \<Rightarrow> fire list \<Rightarrow> state \<Rightarrow> state" where
  "storeHotspots f loc hotspots st =
     st\<lparr>storage := (storage st)\<lparr>mapHotspots := Some (map (withDistance f loc) hotspots)\<rparr>\<rparr>"

definition searchWildfires_hotspots :: "env \<Rightarrow> state \<Rightarrow> state" where
  "searchWildfires_hotspots e st =
     (if trim (address st) = [] then st\<lparr>error := invalidInputMessage\<rparr>
      else
        let st1 = st\<lparr>loading := True, error := [], results := []\<rparr> in
        (case geocodeAddress (address st) e st1 of
           (Inl (Error m), st2) \<Rightarrow> st2\<lparr>error := m, loading := False\<rparr>
         | (Inr loc, st2) \<Rightarrow>
             let st3 = st2\<lparr>userLocation := Some loc\<rparr>;
                 (wildfires, st4) =
                   (case getCachedData e st3 of
                      (Some ws, s) \<Rightarrow> (ws, s)
                    | (None, s) \<Rightarrow>
                        (case getWildfireData_hotspots e s of
                           (ws, s') \<Rightarrow> (ws, setCachedData e ws s')));
                 (hotspots, st5) = getHotspotData e st4
             in if wildfires = [] then
                  (let st6 = st5\<lparr>results := []\<rparr>;
                       st7 = (if error st = [] then st6\<lparr>error := areaClearMessage\<rparr> else st6);
                       st8 = (if hotspots \<noteq> [] then storeHotspots (arith e) loc hotspots st7
                              else st7)
                   in st8\<lparr>loading := False\<rparr>)
                else
                  (let st6 = st5\<lparr>results := rankFires (arith e) loc wildfires\<rparr>;
                       st7 = storeHotspots (arith e) loc hotspots st6
                   in st7\<lparr>loading := False\<rparr>)))"

definition initialState :: state where
  "initialState =
     \<lparr>address = [], loading = False, results = [], error = [], lastUpdated = None,
      userLocation = None, storage = \<lparr>wildfireData = None, mapHotspots = None\<rparr>,
      requests = []\<rparr>"

section \<open>Sample inputs\<close>

text \<open>Concrete replies, environments and states on which the theorems below are run.\<close>

definition failingEnv :: env where
  "failingEnv =
     \<lparr>geocoder = (\<lambda>q. NetworkFailure ''Failed to fetch''),
      wildfireService = NetworkFailure ''Failed to fetch'',
      hotspotService = NetworkFailure ''Failed to fetch'',
      clockRead = 1723334400000, clockWrite = 1723334400000, arith = exactArithmetic\<rparr>"

definition sampleFeatures :: "feature list" where
  "sampleFeatures =
     [\<lparr>attributes = [(''NAME'', JStr ''Paddys Pond''), (''STATUS'', JStr ''OC'')],
       geometry = Some \<lparr>geomX = Some (- 52.9), geomY = Some 47.5\<rparr>\<rparr>,
      \<lparr>attributes = [(''NAME'', JStr ''Old burn''), (''STATUS'', JStr ''O'')],
       geometry = Some \<lparr>geomX = Some (- 53.1), geomY = Some 47.6\<rparr>\<rparr>,
      \<lparr>attributes = [(''NAME'', JStr ''No geometry''), (''STATUS'', JStr ''BH'')],
       geometry = None\<rparr>,
      \<lparr>attributes = [(''NAME'', JStr ''Zero latitude''), (''STATUS'', JStr ''UC'')],
       geometry = Some \<lparr>geomX = Some (- 53.3), geomY = Some 0\<rparr>\<rparr>,
      \<lparr>attributes = [(''NAME'', JStr ''No status'')],
       geometry = Some \<lparr>geomX = Some (- 53.4), geomY = Some 47.9\<rparr>\<rparr>,
      \<lparr>attributes = [(''NAME'', JStr ''Odd status''), (''STATUS'', JStr ''XX'')],
       geometry = Some \<lparr>geomX = Some (- 53.5), geomY = Some 48.1\<rparr>\<rparr>,
      \<lparr>attributes = [(''NAME'', JStr ''Gander''), (''STATUS'', JStr ''BH'')],
       geometry = Some \<lparr>geomX = Some (- 54.6), geomY = Some 48.9\<rparr>\<rparr>]"

definition zeroLongitudeFeature :: feature where
  "zeroLongitudeFeature =
     \<lparr>attributes = [(''NAME'', JStr ''On the meridian''), (''STATUS'', JStr ''OC'')],
      geometry = Some \<lparr>geomX = Some 0, geomY = Some 51.5\<rparr>\<rparr>"

definition sampleCandidate :: candidate where
  "sampleCandidate =
     \<lparr>location = \<lparr>locX = - 52.7125, locY = 47.5614\<rparr>, candScore = 100,
      candAddress = ''St. Johns, Newfoundland and Labrador''\<rparr>"

definition sampleLocation :: geocodeResult where
  "sampleLocation =
     \<lparr>lat = 47.5614, lng = - 52.7125, score = 100,
      matchedAddress = ''St. Johns, Newfoundland and Labrador''\<rparr>"

definition liveEnv :: env where
  "liveEnv =
     \<lparr>geocoder = (\<lambda>q. HttpResponse 200 (Inr \<lparr>candidates = Some [sampleCandidate]\<rparr>)),
      wildfireService =
        HttpResponse 200 (Inr \<lparr>errorField = None, features = Some sampleFeatures\<rparr>),
      hotspotService =
        HttpResponse 200 (Inr \<lparr>hotspotError = None, hotspotFeatures = Some []\<rparr>),
      clockRead = 1723334400000, clockWrite = 1723334400000, arith = exactArithmetic\<rparr>"

definition notFoundEnv :: env where
  "notFoundEnv = liveEnv\<lparr>geocoder := (\<lambda>q. HttpResponse 200 (Inr \<lparr>candidates = Some []\<rparr>))\<rparr>"

definition unavailableEnv :: env where
  "unavailableEnv = liveEnv\<lparr>geocoder := (\<lambda>q. HttpResponse 503 (Inl ''Unexpected token <''))\<rparr>"

definition outageEnv :: env where
  "outageEnv = liveEnv\<lparr>wildfireService := HttpResponse 503 (Inl ''Unexpected token <'')\<rparr>"

definition minuteLaterEnv :: env where
  "minuteLaterEnv =
     outageEnv\<lparr>clockRead := 1723334400000 + 60000, clockWrite := 1723334400000 + 60000\<rparr>"

definition searching :: state where
  "searching = initialState\<lparr>address := ''St. Johns''\<rparr>"

definition laterSearches :: "(string \<times> env) list" where
  "laterSearches =
     [(''Gander'', liveEnv\<lparr>clockRead := 1723334400000 + 60000\<rparr>),
      ('' '', liveEnv\<lparr>clockRead := 1723334400000 + 120000\<rparr>),
      (''Corner Brook'', liveEnv\<lparr>clockRead := 1723334400000 + 599999\<rparr>)]"

section \<open>Properties of the risk classifier\<close>

text \<open>
  Claim C1. The risk classifier is the decision table of the specification, read from
  top to bottom with the first matching rule winning: for every distance and every
  status, the level is EXTREME RISK when the status is \<^verbatim>\<open>"OC"\<close> (Out-of-Control) and the
  distance is below 10; otherwise HIGH RISK when the status is \<^verbatim>\<open>"OC"\<close> and the distance
  is below 25; otherwise MODERATE RISK when the status is \<^verbatim>\<open>"OC"\<close> and the distance is
  below 50; otherwise LOW RISK when the status is \<^verbatim>\<open>"OC"\<close> or \<^verbatim>\<open>"BH"\<close> (Being Held) and
  the distance is below 100; otherwise MINIMAL RISK. The status codes are the ones
  \<^verbatim>\<open>getStatusText\<close> names, and the seven sample points of the specification come out as
  stated.
\<close>

theorem getRiskLevel_decision_table:
  "level (getRiskLevel d s) =
     (if s = Some (JStr ''OC'') \<and> d < 10 then ''EXTREME RISK''
      else if s = Some (JStr ''OC'') \<and> d < 25 then ''HIGH RISK''
      else if s = Some (JStr ''OC'') \<and> d < 50 then ''MODERATE RISK''
      else if (s = Some (JStr ''OC'') \<or> s = Some (JStr ''BH'')) \<and> d < 100 then ''LOW RISK''
      else ''MINIMAL RISK'') \<and>
   getStatusText (Some (JStr ''OC'')) = ''Out-of-Control'' \<and>
   getStatusText (Some (JStr ''BH'')) = ''Being Held'' \<and>
   getStatusText (Some (JStr ''UC'')) = ''Under Control'' \<and>
   level (getRiskLevel 5 (Some (JStr ''OC''))) = ''EXTREME RISK'' \<and>
   level (getRiskLevel 15 (Some (JStr ''OC''))) = ''HIGH RISK'' \<and>
   level (getRiskLevel 40 (Some (JStr ''OC''))) = ''MODERATE RISK'' \<and>
   level (getRiskLevel 60 (Some (JStr ''OC''))) = ''LOW RISK'' \<and>
   level (getRiskLevel 60 (Some (JStr ''BH''))) = ''LOW RISK'' \<and>
   level (getRiskLevel 200 (Some (JStr ''OC''))) = ''MINIMAL RISK'' \<and>
   level (getRiskLevel 5 (Some (JStr ''UC''))) = ''MINIMAL RISK''"
  by (simp add: getRiskLevel_def getStatusText_def)

section \<open>Properties of the distance calculator\<close>













section \<open>Properties of the wildfire data fetcher\<close>

lemma getWildfireData_try_fails:
  assumes "(\<exists>m. rep = NetworkFailure m) \<or>
           (\<exists>status body. rep = HttpResponse status body \<and>
              (\<not> responseOk status \<or> (\<exists>m. body = Inl m) \<or>
               (\<exists>dat. body = Inr dat \<and> truthyProp (errorField dat))))"
  shows "getWildfireData_try rep = None"
  using assms by (auto simp: getWildfireData_try_def split: sum.splits)

text \<open>
  Claim C2, as amended. Whenever the fetch or the parsing fails (the request is rejected,
  the HTTP status is not 2xx, the body does not parse, or the body carries a truthy
  \<^verbatim>\<open>error\<close> field), \<^verbatim>\<open>getWildfireData\<close> raises nothing: it sets the degraded-mode
  message and returns its fixed fallback list. That list has four records in
  \<^verbatim>\<open>src/unnamed/part_000\<close> and in the first version of the component, and three records
  (no Labrador City fire) in the version with thermal hotspots.
\<close>

theorem getWildfireData_fallback:
  assumes "(\<exists>m. wildfireService e = NetworkFailure m) \<or>
           (\<exists>status body. wildfireService e = HttpResponse status body \<and>
              (\<not> responseOk status \<or> (\<exists>m. body = Inl m) \<or>
               (\<exists>dat. body = Inr dat \<and> truthyProp (errorField dat))))"
  shows "getWildfireData e st =
           (fallbackFires,
            st\<lparr>requests := requests st @ [WildfireRequest], error := degradedMessage\<rparr>) \<and>
         length fallbackFires = 4 \<and>
         getWildfireData_hotspots e st =
           (fallbackFires_hotspots,
            st\<lparr>requests := requests st @ [WildfireRequest], error := degradedMessage\<rparr>) \<and>
         length fallbackFires_hotspots = 3"
  using getWildfireData_try_fails [OF assms]
  by (simp add: getWildfireData_def getWildfireData_hotspots_def fallbackFires_def
      fallbackFires_hotspots_def)

text \<open>The theorem at a rejected fetch, a 503, an unparsable body and an error body.\<close>

theorem getWildfireData_fallback_witness:
  "fst (getWildfireData failingEnv initialState) = fallbackFires \<and>
   error (snd (getWildfireData failingEnv initialState)) = degradedMessage \<and>
   fst (getWildfireData (liveEnv\<lparr>wildfireService := HttpResponse 503 (Inl ''Unexpected token <'')\<rparr>)
          initialState) = fallbackFires \<and>
   fst (getWildfireData (liveEnv\<lparr>wildfireService := HttpResponse 200 (Inl ''Unexpected token <'')\<rparr>)
          initialState) = fallbackFires \<and>
   fst (getWildfireData (liveEnv\<lparr>wildfireService := HttpResponse 200
          (Inr \<lparr>errorField = Some (JObj [(''code'', JNum 400), (''message'', JStr ''Invalid query'')]),
                features = None\<rparr>)\<rparr>) initialState) = fallbackFires"
  using getWildfireData_fallback [of failingEnv initialState]
    getWildfireData_fallback [of "liveEnv\<lparr>wildfireService := HttpResponse 503 (Inl ''Unexpected token <'')\<rparr>" initialState]
    getWildfireData_fallback [of "liveEnv\<lparr>wildfireService := HttpResponse 200 (Inl ''Unexpected token <'')\<rparr>" initialState]
    getWildfireData_fallback [of "liveEnv\<lparr>wildfireService := HttpResponse 200
          (Inr \<lparr>errorField = Some (JObj [(''code'', JNum 400), (''message'', JStr ''Invalid query'')]),
                features = None\<rparr>)\<rparr>" initialState]
  by (simp add: failingEnv_def liveEnv_def responseOk_def truthyProp_def)

text \<open>
  The claim as first stated asks for exactly four fallback records on every failure. In
  the version with thermal hotspots a rejected fetch yields three.
\<close>

theorem fallback_of_four_counterexample:
  "wildfireService failingEnv = NetworkFailure ''Failed to fetch'' \<and>
   fst (getWildfireData_hotspots failingEnv initialState) = [kingstonFire, ochreFire, trinityFire] \<and>
   length (fst (getWildfireData_hotspots failingEnv initialState)) \<noteq> 4"
  by (simp add: failingEnv_def getWildfireData_hotspots_def getWildfireData_try_def
      fallbackFires_hotspots_def)

lemma activeFilter_iff:
  "activeFilter f \<longleftrightarrow>
     LATITUDE f \<noteq> None \<and> LATITUDE f \<noteq> Some 0 \<and>
     LONGITUDE f \<noteq> None \<and> LONGITUDE f \<noteq> Some 0 \<and>
     (STATUS f = Some (JStr ''OC'') \<or> STATUS f = Some (JStr ''BH'') \<or>
      STATUS f = Some (JStr ''UC''))"
  by (auto simp: activeFilter_def truthyNum_def truthyProp_def split: option.splits)

lemma getWildfireData_try_live:
  assumes "rep = HttpResponse status (Inr dat)" "responseOk status"
    "\<not> truthyProp (errorField dat)"
  shows "getWildfireData_try rep =
           Some (case features dat of None \<Rightarrow> [] | Some fts \<Rightarrow> filter activeFilter (map toFire fts))"
  using assms by (simp add: getWildfireData_try_def split: option.splits list.splits)

text \<open>
  What a successful fetch returns, in the order of the feature list: the records whose
  latitude and longitude are both truthy (present and not zero) and whose status is
  \<^verbatim>\<open>"OC"\<close>, \<^verbatim>\<open>"BH"\<close> or \<^verbatim>\<open>"UC"\<close>. No record with status \<^verbatim>\<open>"O"\<close>, with an unrecognised
  or missing status, or with a missing coordinate is among them.
\<close>

lemma getWildfireData_live_output:
  assumes "wildfireService e = HttpResponse status (Inr dat)" and "responseOk status"
    and "\<not> truthyProp (errorField dat)" and "features dat = Some fts"
  shows "fst (getWildfireData e st) =
           filter (\<lambda>f. LATITUDE f \<noteq> None \<and> LATITUDE f \<noteq> Some 0 \<and>
                        LONGITUDE f \<noteq> None \<and> LONGITUDE f \<noteq> Some 0 \<and>
                        (STATUS f = Some (JStr ''OC'') \<or> STATUS f = Some (JStr ''BH'') \<or>
                         STATUS f = Some (JStr ''UC'')))
             (map toFire fts) \<and>
         (\<forall>f \<in> set (fst (getWildfireData e st)).
            LATITUDE f \<noteq> None \<and> LONGITUDE f \<noteq> None \<and> STATUS f \<noteq> None \<and>
            STATUS f \<noteq> Some (JStr ''O'') \<and>
            getStatusText (STATUS f) \<in> set [''Out-of-Control'', ''Being Held'', ''Under Control'']) \<and>
         fst (getWildfireData_hotspots e st) = fst (getWildfireData e st)"
proof -
  have live: "getWildfireData_try (wildfireService e) = Some (filter activeFilter (map toFire fts))"
    using getWildfireData_try_live [OF assms(1-3)] assms(4) by simp
  have eq: "fst (getWildfireData e st) = filter activeFilter (map toFire fts)"
    by (simp add: getWildfireData_def live)
  have eq': "fst (getWildfireData_hotspots e st) = filter activeFilter (map toFire fts)"
    by (simp add: getWildfireData_hotspots_def live)
  have "filter activeFilter (map toFire fts) =
          filter (\<lambda>f. LATITUDE f \<noteq> None \<and> LATITUDE f \<noteq> Some 0 \<and>
                        LONGITUDE f \<noteq> None \<and> LONGITUDE f \<noteq> Some 0 \<and>
                        (STATUS f = Some (JStr ''OC'') \<or> STATUS f = Some (JStr ''BH'') \<or>
                         STATUS f = Some (JStr ''UC'')))
             (map toFire fts)"
    by (rule filter_cong) (simp_all add: activeFilter_iff)
  moreover have "\<forall>f \<in> set (filter activeFilter (map toFire fts)).
            LATITUDE f \<noteq> None \<and> LONGITUDE f \<noteq> None \<and> STATUS f \<noteq> None \<and>
            STATUS f \<noteq> Some (JStr ''O'') \<and>
            getStatusText (STATUS f) \<in> set [''Out-of-Control'', ''Being Held'', ''Under Control'']"
    by (auto simp: activeFilter_iff getStatusText_def)
  ultimately show ?thesis
    using eq eq' by simp
qed

text \<open>
  Claim C3. For every successfully fetched feature list \<^verbatim>\<open>getWildfireData\<close> is to
  return exactly the records that have both coordinates present and whose status is
  Out-of-Control, Being Held or Under Control. The code, whose filter is commented as
  keeping the fires with valid coordinates, tests the coordinates for truthiness, and so
  drops a record whose coordinate is present and zero: the reply below holds one fire,
  Out-of-Control at latitude \<open>51.5\<close> and longitude \<open>0\<close>, and nothing is returned.
\<close>

theorem zero_longitude_fire_dropped:
  "LATITUDE (toFire zeroLongitudeFeature) = Some 51.5 \<and>
   LONGITUDE (toFire zeroLongitudeFeature) = Some 0 \<and>
   STATUS (toFire zeroLongitudeFeature) = Some (JStr ''OC'') \<and>
   fst (getWildfireData
          (liveEnv\<lparr>wildfireService := HttpResponse 200
             (Inr \<lparr>errorField = None, features = Some [zeroLongitudeFeature]\<rparr>)\<rparr>)
          initialState) = []"
  by (simp add: zeroLongitudeFeature_def toFire_def STATUS_def getProp_def liveEnv_def
      getWildfireData_def getWildfireData_try_def responseOk_def truthyProp_def
      activeFilter_def truthyNum_def)

lemma fallback_coordinates:
  "\<forall>f \<in> set fallbackFires. LATITUDE f \<noteq> Some 0 \<and> LONGITUDE f \<noteq> Some 0"
  "\<forall>f \<in> set fallbackFires_hotspots. LATITUDE f \<noteq> Some 0 \<and> LONGITUDE f \<noteq> Some 0"
  by (simp_all add: fallbackFires_def fallbackFires_hotspots_def kingstonFire_def ochreFire_def
      trinityFire_def labradorFire_def mkFire_def)

lemma getWildfireData_try_nonzero:
  "getWildfireData_try rep = Some fires \<Longrightarrow> f \<in> set fires \<Longrightarrow>
     LATITUDE f \<noteq> Some 0 \<and> LONGITUDE f \<noteq> Some 0"
  by (auto simp: getWildfireData_try_def activeFilter_iff
      split: reply.splits if_splits sum.splits option.splits list.splits)

text \<open>
  Claim C9. A fetched record whose geometry has latitude or longitude exactly \<open>0\<close> is
  never in the output of \<^verbatim>\<open>getWildfireData\<close>, whatever its status: the test of the
  coordinates is a test for truthiness, and \<open>0\<close> is falsy.
\<close>

theorem zero_coordinate_excluded:
  assumes "geometry ft = Some g" and "geomY g = Some 0 \<or> geomX g = Some 0"
  shows "toFire ft \<notin> set (fst (getWildfireData e st)) \<and>
         toFire ft \<notin> set (fst (getWildfireData_hotspots e st)) \<and>
         \<not> activeFilter (toFire ft)"
proof -
  have z: "LATITUDE (toFire ft) = Some 0 \<or> LONGITUDE (toFire ft) = Some 0"
    using assms by (auto simp: toFire_def)
  have a: "toFire ft \<notin> set (fst (getWildfireData e st))"
    using z fallback_coordinates(1) getWildfireData_try_nonzero [of "wildfireService e" _ "toFire ft"]
    by (auto simp: getWildfireData_def Let_def split: option.splits)
  have b: "toFire ft \<notin> set (fst (getWildfireData_hotspots e st))"
    using z fallback_coordinates(2) getWildfireData_try_nonzero [of "wildfireService e" _ "toFire ft"]
    by (auto simp: getWildfireData_hotspots_def Let_def split: option.splits)
  have c: "\<not> activeFilter (toFire ft)"
    using z by (auto simp: activeFilter_iff)
  show ?thesis using a b c by simp
qed

text \<open>The fourth sample feature is Under Control at latitude \<open>0\<close>; it is dropped while
  other features of the same reply are kept.\<close>

theorem zero_coordinate_excluded_witness:
  "sampleFeatures ! 3 \<in> set sampleFeatures \<and>
   STATUS (toFire (sampleFeatures ! 3)) = Some (JStr ''UC'') \<and>
   LATITUDE (toFire (sampleFeatures ! 3)) = Some 0 \<and>
   toFire (sampleFeatures ! 3) \<notin> set (fst (getWildfireData liveEnv initialState)) \<and>
   fst (getWildfireData liveEnv initialState) \<noteq> []"
  using zero_coordinate_excluded [of "sampleFeatures ! 3" "\<lparr>geomX = Some (- 53.3), geomY = Some 0\<rparr>"
      liveEnv initialState]
  by (simp add: sampleFeatures_def toFire_def STATUS_def getProp_def liveEnv_def
      getWildfireData_def getWildfireData_try_def responseOk_def truthyProp_def
      activeFilter_def truthyNum_def)

section \<open>Properties of the result cache\<close>

text \<open>
  Claim C4. For every state of the storage and every clock value, \<^verbatim>\<open>getCachedData\<close>
  returns nothing when no entry is stored or when the entry is ten minutes old or older,
  and returns the stored list when the entry is younger than ten minutes; the storage is
  left as it was, so a stale entry is not deleted by the check. In particular a read
  eleven minutes after \<^verbatim>\<open>setCachedData\<close> misses and a read one minute after it hits.
  Only the interval timer removes an entry, and a read after that misses.
\<close>

theorem getCachedData_ttl:
  "(wildfireData (storage st) = None \<longrightarrow> fst (getCachedData e st) = None) \<and>
   (\<forall>c. wildfireData (storage st) = Some c \<longrightarrow>
      (maxAge \<le> clockRead e - timestamp c \<longrightarrow> fst (getCachedData e st) = None) \<and>
      (clockRead e - timestamp c < maxAge \<longrightarrow> fst (getCachedData e st) = Some (data c))) \<and>
   storage (snd (getCachedData e st)) = storage st \<and>
   maxAge = 10 * 60 * 1000 \<and>
   (clockRead e' = clockWrite e + 11 * 60 * 1000 \<longrightarrow>
      fst (getCachedData e' (setCachedData e ws st)) = None) \<and>
   (clockRead e' = clockWrite e + 1 * 60 * 1000 \<longrightarrow>
      fst (getCachedData e' (setCachedData e ws st)) = Some ws) \<and>
   fst (getCachedData e (clearCache st)) = None"
  by (auto simp: getCachedData_def setCachedData_def clearCache_def maxAge_def Let_def
      split: option.splits)

text \<open>The theorem one minute and eleven minutes after a write, and on the empty storage.\<close>

theorem getCachedData_ttl_witness:
  "fst (getCachedData (liveEnv\<lparr>clockRead := 1723334400000 + 60000\<rparr>)
         (setCachedData liveEnv fallbackFires initialState)) = Some fallbackFires \<and>
   fst (getCachedData (liveEnv\<lparr>clockRead := 1723334400000 + 660000\<rparr>)
         (setCachedData liveEnv fallbackFires initialState)) = None \<and>
   wildfireData (storage (snd (getCachedData (liveEnv\<lparr>clockRead := 1723334400000 + 660000\<rparr>)
         (setCachedData liveEnv fallbackFires initialState)))) =
     Some \<lparr>data = fallbackFires, timestamp = 1723334400000\<rparr> \<and>
   fst (getCachedData liveEnv initialState) = None"
  using getCachedData_ttl [where st = "setCachedData liveEnv fallbackFires initialState"
      and e = liveEnv
      and e' = "liveEnv\<lparr>clockRead := 1723334400000 + 60000\<rparr>" and ws = fallbackFires]
    getCachedData_ttl [where st = "setCachedData liveEnv fallbackFires initialState"
      and e = liveEnv
      and e' = "liveEnv\<lparr>clockRead := 1723334400000 + 660000\<rparr>" and ws = fallbackFires]
    getCachedData_ttl [where st = "setCachedData liveEnv fallbackFires initialState"
      and e = "liveEnv\<lparr>clockRead := 1723334400000 + 660000\<rparr>"
      and e' = liveEnv and ws = fallbackFires]
    getCachedData_ttl [where st = initialState and e = liveEnv and e' = liveEnv and ws = fallbackFires]
  by (simp add: liveEnv_def setCachedData_def initialState_def maxAge_def)

section \<open>Properties of the geocoder\<close>

lemma geocodeAddress_fst:
  "fst (geocodeAddress a e st) =
     (case geocodeAddress_try (geocoder e (geocodeQuery a)) of
        Inl (Error m) \<Rightarrow> Inl (Error (''Geocoding failed: '' @ m))
      | Inr r \<Rightarrow> Inr r)"
  by (simp add: geocodeAddress_def Let_def split: sum.splits jsError.splits)

lemma geocodeAddress_snd:
  "snd (geocodeAddress a e st) = st\<lparr>requests := requests st @ [GeocodeRequest (geocodeQuery a)]\<rparr>"
  by (simp add: geocodeAddress_def Let_def split: sum.splits jsError.splits)

lemma geocodeAddress_fst_state: "fst (geocodeAddress a e st) = fst (geocodeAddress a e st')"
  by (simp add: geocodeAddress_fst)

lemma search_geocode_error:
  assumes "trim (address st) \<noteq> []" and "fst (geocodeAddress (address st) e st) = Inl (Error msg)"
  shows "searchWildfires e st =
           st\<lparr>loading := False, error := msg, results := [],
              requests := requests st @ [GeocodeRequest (geocodeQuery (address st))]\<rparr>"
proof -
  let ?st1 = "st\<lparr>loading := True, error := [], results := []\<rparr>"
  have "fst (geocodeAddress (address st) e ?st1) = Inl (Error msg)"
    using assms(2) geocodeAddress_fst_state [of "address st" e ?st1 st] by simp
  then have "geocodeAddress (address st) e ?st1 =
               (Inl (Error msg), ?st1\<lparr>requests := requests ?st1 @ [GeocodeRequest (geocodeQuery (address st))]\<rparr>)"
    using geocodeAddress_snd [of "address st" e ?st1] by (simp add: prod_eq_iff)
  then show ?thesis
    using assms(1) by (simp add: searchWildfires_def)
qed

lemma search_hotspots_geocode_error:
  assumes "trim (address st) \<noteq> []" and "fst (geocodeAddress (address st) e st) = Inl (Error msg)"
  shows "searchWildfires_hotspots e st =
           st\<lparr>loading := False, error := msg, results := [],
              requests := requests st @ [GeocodeRequest (geocodeQuery (address st))]\<rparr>"
proof -
  let ?st1 = "st\<lparr>loading := True, error := [], results := []\<rparr>"
  have "fst (geocodeAddress (address st) e ?st1) = Inl (Error msg)"
    using assms(2) geocodeAddress_fst_state [of "address st" e ?st1 st] by simp
  then have "geocodeAddress (address st) e ?st1 =
               (Inl (Error msg), ?st1\<lparr>requests := requests ?st1 @ [GeocodeRequest (geocodeQuery (address st))]\<rparr>)"
    using geocodeAddress_snd [of "address st" e ?st1] by (simp add: prod_eq_iff)
  then show ?thesis
    using assms(1) by (simp add: searchWildfires_hotspots_def)
qed

lemma http_message_not_addressNotFound:
  "''HTTP error! status: '' @ m \<noteq> addressNotFound"
  by (simp add: addressNotFound_def)

text \<open>
  Claim C8. \<^verbatim>\<open>geocodeAddress\<close> fails with the address-not-found error when the service
  returns no candidate, and with a service error on an HTTP-level failure: for a status
  that is not 2xx the message names the status, for a rejected request it carries the
  message of the rejection. Both are thrown under the prefix \<^verbatim>\<open>Geocoding failed:\<close>, and
  they differ: always for an HTTP status, and for a rejected request whenever its message
  is not itself the address-not-found text. The search shows the message of the error it
  receives unchanged.
\<close>

theorem geocodeAddress_failures:
  "(geocoder e (geocodeQuery a) = HttpResponse status (Inr dat) \<and> responseOk status \<and>
      (candidates dat = None \<or> candidates dat = Some []) \<longrightarrow>
      fst (geocodeAddress a e st) = Inl (Error (''Geocoding failed: '' @ addressNotFound))) \<and>
   (geocoder e (geocodeQuery a) = HttpResponse status body \<and> \<not> responseOk status \<longrightarrow>
      fst (geocodeAddress a e st) =
        Inl (Error (''Geocoding failed: HTTP error! status: '' @ showNat status)) \<and>
      fst (geocodeAddress a e st) \<noteq> Inl (Error (''Geocoding failed: '' @ addressNotFound))) \<and>
   (geocoder e (geocodeQuery a) = NetworkFailure m \<longrightarrow>
      fst (geocodeAddress a e st) = Inl (Error (''Geocoding failed: '' @ m)) \<and>
      (m \<noteq> addressNotFound \<longrightarrow>
         fst (geocodeAddress a e st) \<noteq> Inl (Error (''Geocoding failed: '' @ addressNotFound)))) \<and>
   (trim (address st) \<noteq> [] \<and> fst (geocodeAddress (address st) e st) = Inl (Error msg) \<longrightarrow>
      error (searchWildfires e st) = msg \<and> error (searchWildfires_hotspots e st) = msg)"
proof -
  have 1: "fst (geocodeAddress a e st) = Inl (Error (''Geocoding failed: '' @ addressNotFound))"
    if "geocoder e (geocodeQuery a) = HttpResponse status (Inr dat)" "responseOk status"
      "candidates dat = None \<or> candidates dat = Some []"
    using that by (auto simp: geocodeAddress_fst geocodeAddress_try_def)
  have 2: "fst (geocodeAddress a e st) =
             Inl (Error (''Geocoding failed: HTTP error! status: '' @ showNat status)) \<and>
           fst (geocodeAddress a e st) \<noteq> Inl (Error (''Geocoding failed: '' @ addressNotFound))"
    if "geocoder e (geocodeQuery a) = HttpResponse status body" "\<not> responseOk status"
    using that http_message_not_addressNotFound [of "showNat status"]
    by (simp add: geocodeAddress_fst geocodeAddress_try_def)
  have 3: "fst (geocodeAddress a e st) = Inl (Error (''Geocoding failed: '' @ m)) \<and>
           (m \<noteq> addressNotFound \<longrightarrow>
              fst (geocodeAddress a e st) \<noteq> Inl (Error (''Geocoding failed: '' @ addressNotFound)))"
    if "geocoder e (geocodeQuery a) = NetworkFailure m"
    using that by (simp add: geocodeAddress_fst geocodeAddress_try_def)
  have 4: "error (searchWildfires e st) = msg \<and> error (searchWildfires_hotspots e st) = msg"
    if "trim (address st) \<noteq> []" "fst (geocodeAddress (address st) e st) = Inl (Error msg)"
    using search_geocode_error [OF that] search_hotspots_geocode_error [OF that] by simp
  show ?thesis
    using 1 2 3 4 by blast
qed

text \<open>The three failures, each as the search reports it.\<close>

theorem geocodeAddress_failures_witness:
  "error (searchWildfires notFoundEnv (initialState\<lparr>address := ''Nowhere''\<rparr>)) =
     ''Geocoding failed: Address not found. Please try a more specific address in Newfoundland & Labrador.'' \<and>
   error (searchWildfires unavailableEnv (initialState\<lparr>address := ''Nowhere''\<rparr>)) =
     ''Geocoding failed: HTTP error! status: 503'' \<and>
   error (searchWildfires failingEnv (initialState\<lparr>address := ''Nowhere''\<rparr>)) =
     ''Geocoding failed: Failed to fetch''"
proof -
  let ?st = "initialState\<lparr>address := ''Nowhere''\<rparr>"
  have t: "trim (address ?st) \<noteq> []"
    by (simp add: trim_def isWhiteSpace_def)
  have a: "geocoder notFoundEnv (geocodeQuery ''Nowhere'') =
             HttpResponse 200 (Inr \<lparr>candidates = Some []\<rparr>) \<and> responseOk 200 \<and>
           (candidates \<lparr>candidates = Some []\<rparr> = None \<or>
            candidates \<lparr>candidates = Some []\<rparr> = Some [])"
    by (simp add: notFoundEnv_def responseOk_def)
  have b: "geocoder unavailableEnv (geocodeQuery ''Nowhere'') =
             HttpResponse 503 (Inl ''Unexpected token <'') \<and> \<not> responseOk 503"
    by (simp add: unavailableEnv_def responseOk_def)
  have c: "geocoder failingEnv (geocodeQuery ''Nowhere'') = NetworkFailure ''Failed to fetch''"
    by (simp add: failingEnv_def)
  have s: "showNat 503 = ''503''"
    by code_simp
  note A = geocodeAddress_failures [where e = notFoundEnv and a = "''Nowhere''" and st = ?st
      and status = 200 and dat = "\<lparr>candidates = Some []\<rparr>"
      and msg = "''Geocoding failed: '' @ addressNotFound"]
  note B = geocodeAddress_failures [where e = unavailableEnv and a = "''Nowhere''" and st = ?st
      and status = 503 and body = "Inl ''Unexpected token <''"
      and msg = "''Geocoding failed: HTTP error! status: '' @ showNat 503"]
  note C = geocodeAddress_failures [where e = failingEnv and a = "''Nowhere''" and st = ?st
      and m = "''Failed to fetch''" and msg = "''Geocoding failed: '' @ ''Failed to fetch''"]
  have 1: "error (searchWildfires notFoundEnv ?st) = ''Geocoding failed: '' @ addressNotFound"
    using A a t by simp
  have 2: "error (searchWildfires unavailableEnv ?st) =
             ''Geocoding failed: HTTP error! status: '' @ showNat 503"
    using B b t by simp
  have 3: "error (searchWildfires failingEnv ?st) = ''Geocoding failed: '' @ ''Failed to fetch''"
    using C c t by simp
  show ?thesis
    using 1 2 3 s by (simp add: addressNotFound_def)
qed

section \<open>Properties of the search\<close>

text \<open>
  Claim C6. For every blank address (empty, or white space only) the search fails with
  the invalid-input message and does nothing else: no request goes to the geocoder, to
  the wildfire service or to the hotspot service, and the storage is unchanged. This
  holds for the search of \<^verbatim>\<open>src/unnamed/part_000\<close> and for the one with thermal hotspots.
\<close>

theorem blank_address_no_request:
  assumes "\<forall>c \<in> set (address st). isWhiteSpace c"
  shows "searchWildfires e st = st\<lparr>error := invalidInputMessage\<rparr> \<and>
         requests (searchWildfires e st) = requests st \<and>
         storage (searchWildfires e st) = storage st \<and>
         searchWildfires_hotspots e st = st\<lparr>error := invalidInputMessage\<rparr> \<and>
         requests (searchWildfires_hotspots e st) = requests st \<and>
         storage (searchWildfires_hotspots e st) = storage st"
proof -
  have "dropWhile isWhiteSpace (address st) = []"
    using assms unfolding dropWhile_eq_Nil_conv .
  then have "trim (address st) = []"
    unfolding trim_def by (simp only: rev.simps dropWhile.simps)
  then show ?thesis
    by (simp add: searchWildfires_def searchWildfires_hotspots_def)
qed

text \<open>The empty address, and an address of a space and a tab, with every service up.\<close>

theorem blank_address_no_request_witness:
  "error (searchWildfires liveEnv initialState) = ''Please enter an address'' \<and>
   requests (searchWildfires liveEnv initialState) = [] \<and>
   wildfireData (storage (searchWildfires liveEnv initialState)) = None \<and>
   error (searchWildfires_hotspots liveEnv (initialState\<lparr>address := [CHR '' '', CHR 0x09]\<rparr>)) =
     ''Please enter an address'' \<and>
   requests (searchWildfires_hotspots liveEnv (initialState\<lparr>address := [CHR '' '', CHR 0x09]\<rparr>)) = []"
  using blank_address_no_request [of initialState liveEnv]
    blank_address_no_request [of "initialState\<lparr>address := [CHR '' '', CHR 0x09]\<rparr>" liveEnv]
  by (simp add: initialState_def isWhiteSpace_def invalidInputMessage_def)

lemma rankFires_Nil: "rankFires f loc [] = []"
  by (simp add: rankFires_def sortByDistance_def arraySort_def)

lemma getCachedData_fst_state:
  "storage st' = storage st \<Longrightarrow> fst (getCachedData e st') = fst (getCachedData e st)"
  by (simp add: getCachedData_def Let_def split: option.splits)

lemma getWildfireData_fst_state:
  "fst (getWildfireData e st') = fst (getWildfireData e st)"
  by (simp add: getWildfireData_def Let_def split: option.splits)

lemma search_results:
  assumes "trim (address st) \<noteq> []" and "fst (geocodeAddress (address st) e st) = Inr loc"
  shows "results (searchWildfires e st) =
           rankFires (arith e) loc
             (case fst (getCachedData e st) of
                Some ws \<Rightarrow> ws
              | None \<Rightarrow> fst (getWildfireData e st))"
proof -
  let ?st1 = "st\<lparr>loading := True, error := [], results := []\<rparr>"
  let ?st2 = "?st1\<lparr>requests := requests ?st1 @ [GeocodeRequest (geocodeQuery (address st))]\<rparr>"
  let ?st3 = "?st2\<lparr>userLocation := Some loc\<rparr>"
  have "fst (geocodeAddress (address st) e ?st1) = Inr loc"
    using assms(2) geocodeAddress_fst_state [of "address st" e ?st1 st] by simp
  then have g: "geocodeAddress (address st) e ?st1 = (Inr loc, ?st2)"
    using geocodeAddress_snd [of "address st" e ?st1] by (simp add: prod_eq_iff)
  have c: "fst (getCachedData e ?st3) = fst (getCachedData e st)"
    by (rule getCachedData_fst_state) simp
  show ?thesis
  proof (cases "getCachedData e ?st3")
    case (Pair cached s)
    have cs: "fst (getCachedData e st) = cached"
      using c Pair by simp
    show ?thesis
    proof (cases cached)
      case None
      obtain ws s' where w: "getWildfireData e s = (ws, s')"
        by (cases "getWildfireData e s")
      have "ws = fst (getWildfireData e st)"
        using w getWildfireData_fst_state [of e s st] by simp
      then show ?thesis
        using assms(1) g Pair None w
        by (simp add: searchWildfires_def Let_def rankFires_Nil cs)
    next
      case (Some ws)
      then show ?thesis
        using assms(1) g Pair
        by (simp add: searchWildfires_def Let_def rankFires_Nil cs)
    qed
  qed
qed

lemma sortCompare_numbers:
  "distance a = Num p \<Longrightarrow> distance b = Num q \<Longrightarrow>
     (sortCompare (\<lambda>a b. jsSub (distance a) (distance b)) a b \<le> 0) = (p \<le> q)"
  by (simp add: sortCompare_def jsSub_def)

lemma insertBy_numbers:
  assumes "\<forall>r \<in> set (x # xs). distance r \<noteq> NaN"
  shows "insertBy (\<lambda>a b. jsSub (distance a) (distance b)) x xs =
           insort_key (\<lambda>r. case distance r of NaN \<Rightarrow> 0 | Num v \<Rightarrow> v) x xs"
  using assms
proof (induction xs)
  case Nil
  then show ?case by simp
next
  case (Cons y ys)
  obtain p q where pq: "distance x = Num p" "distance y = Num q"
    using Cons.prems by (cases "distance x"; cases "distance y") simp_all
  have "insertBy (\<lambda>a b. jsSub (distance a) (distance b)) x ys =
          insort_key (\<lambda>r. case distance r of NaN \<Rightarrow> 0 | Num v \<Rightarrow> v) x ys"
    using Cons.IH Cons.prems by simp
  then show ?case
    using sortCompare_numbers [OF pq] pq by simp
qed

lemma sortByDistance_numbers:
  assumes "\<forall>r \<in> set rs. distance r \<noteq> NaN"
  shows "sortByDistance rs = sort_key (\<lambda>r. case distance r of NaN \<Rightarrow> 0 | Num v \<Rightarrow> v) rs"
  using assms
proof (induction rs)
  case Nil
  then show ?case by (simp add: sortByDistance_def arraySort_def)
next
  case (Cons r rs)
  have ih: "sortByDistance rs = sort_key (\<lambda>r. case distance r of NaN \<Rightarrow> 0 | Num v \<Rightarrow> v) rs"
    using Cons by simp
  have "sortByDistance (r # rs) =
          insertBy (\<lambda>a b. jsSub (distance a) (distance b)) r (sortByDistance rs)"
    by (simp add: sortByDistance_def arraySort_def)
  also have "\<dots> = insort_key (\<lambda>r. case distance r of NaN \<Rightarrow> 0 | Num v \<Rightarrow> v) r
                     (sort_key (\<lambda>r. case distance r of NaN \<Rightarrow> 0 | Num v \<Rightarrow> v) rs)"
    unfolding ih by (rule insertBy_numbers) (use Cons.prems in simp)
  finally show ?case by simp
qed

text \<open>
  As long as no distance is \<^verbatim>\<open>NaN\<close>, the sort of the search orders the records by
  distance, keeps them all, and keeps the fetch order among records at one distance.
\<close>

lemma sortByDistance_sorted_stable:
  assumes "\<forall>r \<in> set rs. distance r \<noteq> NaN"
  shows "sorted_wrt jsLessEq (map distance (sortByDistance rs))"
    and "mset (sortByDistance rs) = mset rs"
    and "filter (\<lambda>r. distance r = d) (sortByDistance rs) = filter (\<lambda>r. distance r = d) rs"
proof -
  let ?k = "\<lambda>r. case distance r of NaN \<Rightarrow> 0 | Num v \<Rightarrow> v"
  have eq: "sortByDistance rs = sort_key ?k rs"
    by (rule sortByDistance_numbers [OF assms])
  have num: "\<forall>r \<in> set (sort_key ?k rs). distance r \<noteq> NaN"
    using assms by simp
  have "sorted (map ?k (sort_key ?k rs))"
    by (rule sorted_sort_key)
  then have "sorted_wrt (\<lambda>a b. ?k a \<le> ?k b) (sort_key ?k rs)"
    by (simp add: sorted_wrt_map)
  then have "sorted_wrt (\<lambda>a b. jsLessEq (distance a) (distance b)) (sort_key ?k rs)"
  proof (rule sorted_wrt_mono_rel [rotated])
    fix a b
    assume "a \<in> set (sort_key ?k rs)" "b \<in> set (sort_key ?k rs)" "?k a \<le> ?k b"
    then show "jsLessEq (distance a) (distance b)"
      using num by (cases "distance a"; cases "distance b") (auto simp: jsLessEq_def)
  qed
  then show "sorted_wrt jsLessEq (map distance (sortByDistance rs))"
    by (simp add: eq sorted_wrt_map)
  show "mset (sortByDistance rs) = mset rs"
    by (simp add: eq)
  show "filter (\<lambda>r. distance r = d) (sortByDistance rs) = filter (\<lambda>r. distance r = d) rs"
  proof (cases d)
    case NaN
    then show ?thesis
      using assms num by (simp add: eq filter_empty_conv)
  next
    case (Num v)
    have "filter (\<lambda>r. distance r = d) (sort_key ?k rs) = filter (\<lambda>r. ?k r = v) (sort_key ?k rs)"
      using num Num by (intro filter_cong refl) (auto split: jsnum.splits)
    also have "\<dots> = filter (\<lambda>r. ?k r = v) rs"
      by (rule sort_key_stable)
    also have "\<dots> = filter (\<lambda>r. distance r = d) rs"
      using assms Num by (intro filter_cong refl) (auto split: jsnum.splits)
    finally show ?thesis
      by (simp add: eq)
  qed
qed



lemma searching_nonblank: "trim (address searching) \<noteq> []"
  by (simp add: searching_def trim_def isWhiteSpace_def)

lemma searching_cache_miss: "fst (getCachedData e searching) = None"
  by (simp add: getCachedData_def searching_def initialState_def)

lemma getCachedData_hit:
  assumes "wildfireData (storage s) = Some c" and "clockRead e - timestamp c < maxAge"
  shows "getCachedData e s = (Some (data c), s\<lparr>lastUpdated := Some (timestamp c)\<rparr>)"
  using assms by (simp add: getCachedData_def Let_def)

lemma getCachedData_snd_miss:
  "fst (getCachedData e s) = None \<Longrightarrow> getCachedData e s = (None, s)"
  by (auto simp: getCachedData_def Let_def split: option.splits if_splits)

lemma getWildfireData_snd_storage:
  "storage (snd (getWildfireData e s)) = storage s"
  "requests (snd (getWildfireData e s)) = requests s @ [WildfireRequest]"
  "address (snd (getWildfireData e s)) = address s"
  by (simp_all add: getWildfireData_def Let_def split: option.splits)

lemma search_miss:
  assumes "trim (address st) \<noteq> []" and "fst (geocodeAddress (address st) e st) = Inr loc"
    and "fst (getCachedData e st) = None"
  shows "storage (searchWildfires e st) =
           (storage st)\<lparr>wildfireData :=
              Some \<lparr>data = fst (getWildfireData e st), timestamp = clockWrite e\<rparr>\<rparr> \<and>
         requests (searchWildfires e st) =
           requests st @ [GeocodeRequest (geocodeQuery (address st)), WildfireRequest] \<and>
         address (searchWildfires e st) = address st"
proof -
  let ?st1 = "st\<lparr>loading := True, error := [], results := []\<rparr>"
  let ?st2 = "?st1\<lparr>requests := requests ?st1 @ [GeocodeRequest (geocodeQuery (address st))]\<rparr>"
  let ?st3 = "?st2\<lparr>userLocation := Some loc\<rparr>"
  have "fst (geocodeAddress (address st) e ?st1) = Inr loc"
    using assms(2) geocodeAddress_fst_state [of "address st" e ?st1 st] by simp
  then have g: "geocodeAddress (address st) e ?st1 = (Inr loc, ?st2)"
    using geocodeAddress_snd [of "address st" e ?st1] by (simp add: prod_eq_iff)
  have "fst (getCachedData e ?st3) = None"
    using assms(3) getCachedData_fst_state [of ?st3 st e] by simp
  then have c: "getCachedData e ?st3 = (None, ?st3)"
    by (rule getCachedData_snd_miss)
  obtain ws s' where w: "getWildfireData e ?st3 = (ws, s')"
    by (cases "getWildfireData e ?st3")
  have ws: "ws = fst (getWildfireData e st)"
    using w getWildfireData_fst_state [of e ?st3 st] by simp
  have s': "storage s' = storage st"
    "requests s' = requests st @ [GeocodeRequest (geocodeQuery (address st)), WildfireRequest]"
    "address s' = address st"
    using w getWildfireData_snd_storage [of e ?st3] by simp_all
  show ?thesis
    using assms(1) g c w ws s'
    by (simp add: searchWildfires_def Let_def setCachedData_def)
qed

lemma search_hit_step:
  assumes "wildfireData (storage s) = Some c" and "clockRead e - timestamp c < maxAge"
  shows "storage (searchWildfires e s) = storage s \<and>
         filter (\<lambda>r. r = WildfireRequest) (requests (searchWildfires e s)) =
           filter (\<lambda>r. r = WildfireRequest) (requests s)"
proof (cases "trim (address s) = []")
  case True
  then show ?thesis by (simp add: searchWildfires_def)
next
  case False
  show ?thesis
  proof (cases "fst (geocodeAddress (address s) e s)")
    case (Inl err)
    obtain msg where "err = Error msg" by (cases err)
    then show ?thesis
      using search_geocode_error [OF False, of e msg] Inl by simp
  next
    case (Inr loc)
    let ?st1 = "s\<lparr>loading := True, error := [], results := []\<rparr>"
    let ?st2 = "?st1\<lparr>requests := requests ?st1 @ [GeocodeRequest (geocodeQuery (address s))]\<rparr>"
    let ?st3 = "?st2\<lparr>userLocation := Some loc\<rparr>"
    have "fst (geocodeAddress (address s) e ?st1) = Inr loc"
      using Inr geocodeAddress_fst_state [of "address s" e ?st1 s] by simp
    then have g: "geocodeAddress (address s) e ?st1 = (Inr loc, ?st2)"
      using geocodeAddress_snd [of "address s" e ?st1] by (simp add: prod_eq_iff)
    have c: "getCachedData e ?st3 = (Some (data c), ?st3\<lparr>lastUpdated := Some (timestamp c)\<rparr>)"
      by (rule getCachedData_hit) (simp_all add: assms)
    show ?thesis
      using False g c by (simp add: searchWildfires_def Let_def)
  qed
qed

lemma searches_keep_cache:
  assumes "wildfireData (storage s) = Some c"
    and "\<forall>x \<in> set xs. clockRead (snd x) - timestamp c < maxAge"
  shows "storage (fold (\<lambda>x s'. searchWildfires (snd x) (s'\<lparr>address := fst x\<rparr>)) xs s) = storage s \<and>
         filter (\<lambda>r. r = WildfireRequest)
           (requests (fold (\<lambda>x s'. searchWildfires (snd x) (s'\<lparr>address := fst x\<rparr>)) xs s)) =
         filter (\<lambda>r. r = WildfireRequest) (requests s)"
  using assms
proof (induction xs arbitrary: s)
  case Nil
  then show ?case by simp
next
  case (Cons x xs)
  let ?s1 = "searchWildfires (snd x) (s\<lparr>address := fst x\<rparr>)"
  have step: "storage ?s1 = storage s \<and>
              filter (\<lambda>r. r = WildfireRequest) (requests ?s1) =
              filter (\<lambda>r. r = WildfireRequest) (requests s)"
    using search_hit_step [of "s\<lparr>address := fst x\<rparr>" c "snd x"] Cons.prems by simp
  then have "wildfireData (storage ?s1) = Some c"
    using Cons.prems(1) by simp
  from Cons.IH [OF this] Cons.prems(2) step show ?case
    by simp
qed

text \<open>
  Claim C10, as amended. When the live fetch fails and the fallback list is returned, the
  search stores that list in the cache with the time of the write. Until the interval
  timer next removes the entry (it fires every ten minutes from mount, whatever the age
  of the entry), every later search whose clock is within ten minutes of that time finds
  the entry: it leaves the storage as it is, sends no request to the wildfire service,
  and ranks the fallback records.
\<close>

theorem fallback_cached_and_reused:
  assumes "trim (address st) \<noteq> []"
    and "fst (geocodeAddress (address st) e st) = Inr loc"
    and "fst (getCachedData e st) = None"
    and "(\<exists>m. wildfireService e = NetworkFailure m) \<or>
         (\<exists>status body. wildfireService e = HttpResponse status body \<and>
            (\<not> responseOk status \<or> (\<exists>m. body = Inl m) \<or>
             (\<exists>dat. body = Inr dat \<and> truthyProp (errorField dat))))"
    and "\<forall>x \<in> set later. clockRead (snd x) - clockWrite e < maxAge"
  shows "wildfireData (storage (searchWildfires e st)) =
           Some \<lparr>data = fallbackFires, timestamp = clockWrite e\<rparr> \<and>
         storage (fold (\<lambda>x s. searchWildfires (snd x) (s\<lparr>address := fst x\<rparr>)) later
                    (searchWildfires e st)) = storage (searchWildfires e st) \<and>
         filter (\<lambda>r. r = WildfireRequest)
           (requests (fold (\<lambda>x s. searchWildfires (snd x) (s\<lparr>address := fst x\<rparr>)) later
                        (searchWildfires e st))) =
         filter (\<lambda>r. r = WildfireRequest) (requests (searchWildfires e st)) \<and>
         (\<forall>e' a' loc'. clockRead e' - clockWrite e < maxAge \<and> trim a' \<noteq> [] \<and>
            fst (geocodeAddress a' e' st) = Inr loc' \<longrightarrow>
            results (searchWildfires e' ((searchWildfires e st)\<lparr>address := a'\<rparr>)) =
              rankFires (arith e') loc' fallbackFires)"
proof -
  let ?s1 = "searchWildfires e st"
  have fb: "fst (getWildfireData e st) = fallbackFires"
    using getWildfireData_try_fails [OF assms(4)] by (simp add: getWildfireData_def Let_def)
  have entry: "wildfireData (storage ?s1) = Some \<lparr>data = fallbackFires, timestamp = clockWrite e\<rparr>"
    using search_miss [OF assms(1-3)] fb by simp
  have keep: "storage (fold (\<lambda>x s. searchWildfires (snd x) (s\<lparr>address := fst x\<rparr>)) later ?s1) = storage ?s1 \<and>
         filter (\<lambda>r. r = WildfireRequest)
           (requests (fold (\<lambda>x s. searchWildfires (snd x) (s\<lparr>address := fst x\<rparr>)) later ?s1)) =
         filter (\<lambda>r. r = WildfireRequest) (requests ?s1)"
    using searches_keep_cache [OF entry, of later] assms(5) by simp
  have res: "results (searchWildfires e' (?s1\<lparr>address := a'\<rparr>)) =
               rankFires (arith e') loc' fallbackFires"
    if h: "clockRead e' - clockWrite e < maxAge" "trim a' \<noteq> []"
      "fst (geocodeAddress a' e' st) = Inr loc'" for e' a' loc'
  proof -
    let ?s2 = "?s1\<lparr>address := a'\<rparr>"
    have 1: "trim (address ?s2) \<noteq> []" using h(2) by simp
    have 2: "fst (geocodeAddress (address ?s2) e' ?s2) = Inr loc'"
      using h(3) geocodeAddress_fst_state [of a' e' ?s2 st] by simp
    have "getCachedData e' ?s2 = (Some fallbackFires, ?s2\<lparr>lastUpdated := Some (clockWrite e)\<rparr>)"
      using getCachedData_hit [of ?s2 "\<lparr>data = fallbackFires, timestamp = clockWrite e\<rparr>" e']
        entry h(1) by simp
    then show ?thesis
      using search_results [OF 1 2] by simp
  qed
  show ?thesis
    using entry keep res by blast
qed

text \<open>A search during an outage of the wildfire service, then three more within ten
  minutes: one request to the wildfire service in all.\<close>

theorem fallback_cached_and_reused_witness:
  "wildfireData (storage (searchWildfires outageEnv searching)) =
     Some \<lparr>data = fallbackFires, timestamp = 1723334400000\<rparr> \<and>
   filter (\<lambda>r. r = WildfireRequest)
     (requests (fold (\<lambda>x s. searchWildfires (snd x) (s\<lparr>address := fst x\<rparr>)) laterSearches
                  (searchWildfires outageEnv searching))) = [WildfireRequest]"
proof -
  have g: "fst (geocodeAddress (address searching) outageEnv searching) = Inr sampleLocation"
    by (simp add: geocodeAddress_fst geocodeAddress_try_def outageEnv_def liveEnv_def
        responseOk_def sampleCandidate_def sampleLocation_def)
  have f: "(\<exists>m. wildfireService outageEnv = NetworkFailure m) \<or>
         (\<exists>status body. wildfireService outageEnv = HttpResponse status body \<and>
            (\<not> responseOk status \<or> (\<exists>m. body = Inl m) \<or>
             (\<exists>dat. body = Inr dat \<and> truthyProp (errorField dat))))"
    by (simp add: outageEnv_def responseOk_def)
  have l: "\<forall>x \<in> set laterSearches. clockRead (snd x) - clockWrite outageEnv < maxAge"
    by (simp add: laterSearches_def outageEnv_def liveEnv_def maxAge_def)
  have r: "requests (searchWildfires outageEnv searching) =
             [GeocodeRequest (geocodeQuery ''St. Johns''), WildfireRequest]"
    using search_miss [OF searching_nonblank g searching_cache_miss]
    by (simp add: searching_def initialState_def)
  have c: "clockWrite outageEnv = 1723334400000"
    by (simp add: outageEnv_def liveEnv_def)
  show ?thesis
    using fallback_cached_and_reused [OF searching_nonblank g searching_cache_miss f l] r c
    by simp
qed

text \<open>
  The claim as first stated lets every search within ten minutes of the write reuse the
  entry. Here the timer fires between two searches one minute apart, and the second
  search asks the wildfire service again.
\<close>

theorem timer_forces_refetch_counterexample:
  "clockRead minuteLaterEnv - clockWrite outageEnv < maxAge \<and>
   wildfireData (storage (searchWildfires outageEnv searching)) =
     Some \<lparr>data = fallbackFires, timestamp = clockWrite outageEnv\<rparr> \<and>
   filter (\<lambda>r. r = WildfireRequest)
     (requests (searchWildfires minuteLaterEnv
                  (clearCache (searchWildfires outageEnv searching)))) =
     [WildfireRequest, WildfireRequest]"
proof -
  let ?s1 = "searchWildfires outageEnv searching"
  have g: "fst (geocodeAddress (address searching) outageEnv searching) = Inr sampleLocation"
    by (simp add: geocodeAddress_fst geocodeAddress_try_def outageEnv_def liveEnv_def
        responseOk_def sampleCandidate_def sampleLocation_def)
  have first: "storage ?s1 =
           (storage searching)\<lparr>wildfireData :=
              Some \<lparr>data = fst (getWildfireData outageEnv searching),
                    timestamp = clockWrite outageEnv\<rparr>\<rparr> \<and>
         requests ?s1 =
           requests searching @ [GeocodeRequest (geocodeQuery (address searching)), WildfireRequest] \<and>
         address ?s1 = address searching"
    by (rule search_miss [OF searching_nonblank g searching_cache_miss])
  have fb: "fst (getWildfireData outageEnv searching) = fallbackFires"
    by (simp add: getWildfireData_def getWildfireData_try_def outageEnv_def responseOk_def)
  have a: "trim (address (clearCache ?s1)) \<noteq> []"
    using first searching_nonblank by (simp add: clearCache_def)
  have g': "fst (geocodeAddress (address (clearCache ?s1)) minuteLaterEnv (clearCache ?s1)) =
              Inr sampleLocation"
    by (simp add: geocodeAddress_fst geocodeAddress_try_def minuteLaterEnv_def outageEnv_def
        liveEnv_def responseOk_def sampleCandidate_def sampleLocation_def)
  have m: "fst (getCachedData minuteLaterEnv (clearCache ?s1)) = None"
    by (simp add: getCachedData_def clearCache_def)
  have second: "requests (searchWildfires minuteLaterEnv (clearCache ?s1)) =
           requests (clearCache ?s1) @
             [GeocodeRequest (geocodeQuery (address (clearCache ?s1))), WildfireRequest]"
    using search_miss [OF a g' m] by simp
  have t: "clockRead minuteLaterEnv - clockWrite outageEnv < maxAge"
    by (simp add: minuteLaterEnv_def outageEnv_def liveEnv_def maxAge_def)
  show ?thesis
    using first fb second t
    by (simp add: clearCache_def searching_def initialState_def)
qed

end
